theory Spec2Isabelle
  imports Main
begin

section \<open>Data model of server.js\<close>

text \<open>
  The session token on the wire. The jsonwebtoken library is an external collaborator of
  server.js; it is modelled by its contract: a well-formed token is a claim set together
  with the key that signed it, anything else is an opaque string.
  The claim set is the object the handlers sign: \<open>{id, email}\<close>, the optional
  \<open>twoFactorVerified\<close> flag, and the \<open>iat\<close>/\<open>exp\<close> fields the library adds.
\<close>

record claims =
  c_id :: int
  c_email :: string
  c_twoFactorVerified :: "bool option"
  c_iat :: "int option"
  c_exp :: "int option"

datatype wire = Signed claims string | Opaque string

text \<open>JSON values of response bodies and of the envelopes sent to observers.\<close>

datatype json =
    JNull
  | JBool bool
  | JNum int
  | JStr string
  | JTok wire
  | JArr "json list"
  | JObj "(string \<times> json) list"

text \<open>
  What a handler leaves behind: \<open>res.status(n).json(b)\<close>, \<open>res.status(n).send()\<close>,
  or nothing at all when the handler raised before it answered.
\<close>

datatype reply = Reply nat json | Empty nat | Unanswered

text \<open>
  The rows of the three tables the handlers read and write. The columns of \<open>users\<close> are
  those the statements of server.js and of the migration name; \<open>logs.timestamp\<close> is
  filled by the store when a row is inserted.
\<close>

record user_row =
  u_id :: int
  u_name :: string
  u_email :: string
  u_type :: string
  u_image :: "string option"
  u_password :: "string option"
  u_two_factor_secret :: "string option"
  u_two_factor_enabled :: bool

record log_row =
  l_user_id :: "int option"
  l_action :: string
  l_entity :: string
  l_entity_id :: int
  l_timestamp :: int

record monitored_row =
  m_user_id :: int
  m_reason :: string
  m_detected_at :: int

record db =
  users :: "user_row list"
  next_user_id :: int
  logs :: "log_row list"
  monitored_users :: "monitored_row list"

section \<open>Strings\<close>

text \<open>
  Strings are lists of the 256 characters of HOL, read as the code points below 256.
  Of JavaScript's whitespace class (\<open>\s\<close>, also what \<open>parseInt\<close> skips) these hold
  seven: tab, line feed, vertical tab, form feed, carriage return, space and the
  no-break space.
\<close>

definition is_space :: "char \<Rightarrow> bool" where
  "is_space c =
     (c \<in> set [CHR 0x09, CHR 0x0A, CHR 0x0B, CHR 0x0C, CHR 0x0D, CHR '' '', CHR 0xA0])"

definition trim :: "string \<Rightarrow> string" where
  \<comment> \<open>the validator library's \<open>trim\<close>: whitespace off both ends\<close>
  "trim x = rev (dropWhile is_space (rev (dropWhile is_space x)))"

definition is_digit :: "char \<Rightarrow> bool" where
  "is_digit c = (c \<in> set ''0123456789'')"

definition digit_value :: "char \<Rightarrow> nat" where
  \<comment> \<open>the place of a digit in \<open>0123456789\<close>\<close>
  "digit_value c = length (takeWhile (\<lambda>d. d \<noteq> c) ''0123456789'')"

text \<open>
  \<open>parseInt(s, 10)\<close>: leading whitespace is skipped, one sign is read, then the longest
  run of digits; without a digit the result is NaN (\<open>None\<close>). What follows the digits
  is ignored.
\<close>

definition parseInt :: "string \<Rightarrow> int option" where
  "parseInt s =
     (let t = dropWhile is_space s;
          negative = (case t of [] \<Rightarrow> False | c # _ \<Rightarrow> c = CHR ''-'');
          u = (case t of [] \<Rightarrow> []
               | c # r \<Rightarrow> if c = CHR ''-'' \<or> c = CHR ''+'' then r else t);
          ds = takeWhile is_digit u
      in if ds = [] then None
         else Some ((if negative then - 1 else 1) *
                    int (foldl (\<lambda>acc c. 10 * acc + digit_value c) 0 ds)))"

section \<open>Session tokens\<close>

definition JWT_SECRET :: "string option \<Rightarrow> string" where
  \<comment> \<open>\<open>process.env.JWT_SECRET || 'your-secret-key'\<close>\<close>
  "JWT_SECRET env =
     (case env of None \<Rightarrow> ''your-secret-key''
      | Some s \<Rightarrow> if s = [] then ''your-secret-key'' else s)"

text \<open>
  \<open>jwt.sign(payload, key, {expiresIn})\<close>: the library refuses a payload that already has
  \<open>exp\<close>; it takes the payload's own \<open>iat\<close> as the issue time when there is one
  (\<open>payload.iat || now\<close>) and sets \<open>exp\<close> to the issue time plus the lifetime.
\<close>

definition jwt_sign :: "claims \<Rightarrow> string \<Rightarrow> int \<Rightarrow> int \<Rightarrow> wire option" where
  "jwt_sign payload key expiresIn now =
     (case c_exp payload of
        Some _ \<Rightarrow> None
      | None \<Rightarrow>
          (let timestamp = (case c_iat payload of
                              None \<Rightarrow> now
                            | Some t \<Rightarrow> if t = 0 then now else t)
           in Some (Signed (payload\<lparr>c_iat := Some timestamp,
                                    c_exp := Some (timestamp + expiresIn)\<rparr>) key)))"

datatype jwt_error = JsonWebTokenError | TokenExpiredError

text \<open>\<open>jwt.verify(token, key)\<close>: signature first, then the expiry (\<open>now >= exp\<close>).\<close>

definition jwt_verify :: "wire \<Rightarrow> string \<Rightarrow> int \<Rightarrow> jwt_error + claims" where
  "jwt_verify token key now =
     (case token of
        Opaque _ \<Rightarrow> Inl JsonWebTokenError
      | Signed c k \<Rightarrow>
          if k \<noteq> key then Inl JsonWebTokenError
          else (case c_exp c of
                  None \<Rightarrow> Inr c
                | Some e \<Rightarrow> if now \<ge> e then Inl TokenExpiredError else Inr c))"

section \<open>authenticateToken\<close>

text \<open>
  The \<open>authorization\<close> header, when present, as the list of its space-separated fields
  (\<open>authHeader.split(' ')\<close>); the token is field 1. An absent header, a header with a
  single field and an empty field 1 are all falsy.
\<close>

definition bearer_token :: "wire list option \<Rightarrow> wire option" where
  "bearer_token authHeader =
     (case authHeader of
        None \<Rightarrow> None
      | Some parts \<Rightarrow>
          if length parts < 2 then None
          else if parts ! 1 = Opaque [] then None
          else Some (parts ! 1))"

definition authenticateToken :: "string \<Rightarrow> int \<Rightarrow> wire list option \<Rightarrow> reply + claims" where
  "authenticateToken key now authHeader =
     (case bearer_token authHeader of
        None \<Rightarrow> Inl (Reply 401 (JObj [(''error'', JStr ''Access token required'')]))
      | Some token \<Rightarrow>
          (case jwt_verify token key now of
             Inl err \<Rightarrow> Inl (Reply 403 (JObj [(''error'', JStr ''Invalid or expired token'')]))
           | Inr user \<Rightarrow> Inr user))"

text \<open>
  A route \<open>app.METHOD(path, authenticateToken, handler)\<close>: the handler runs only when the
  middleware calls \<open>next()\<close>, with \<open>req.user\<close> set to the verified claims. The state
  \<open>'s\<close> is whatever the handler may change.
\<close>

definition authenticated ::
  "string \<Rightarrow> int \<Rightarrow> wire list option \<Rightarrow> (claims \<Rightarrow> 's \<Rightarrow> reply \<times> 's) \<Rightarrow> 's \<Rightarrow> reply \<times> 's" where
  "authenticated key now authHeader handler s =
     (case authenticateToken key now authHeader of
        Inl rejection \<Rightarrow> (rejection, s)
      | Inr user \<Rightarrow> handler user s)"

section \<open>Login\<close>

definition truthy :: "string option \<Rightarrow> bool" where
  \<comment> \<open>a JavaScript string-or-null used as a condition\<close>
  "truthy v = (case v of None \<Rightarrow> False | Some s \<Rightarrow> s \<noteq> [])"

definition select_by_email :: "db \<Rightarrow> string option \<Rightarrow> user_row list" where
  \<comment> \<open>\<open>SELECT * FROM users WHERE email = ?\<close>; an absent parameter is NULL and matches nothing\<close>
  "select_by_email d email =
     (case email of None \<Rightarrow> [] | Some e \<Rightarrow> filter (\<lambda>u. u_email u = e) (users d))"

definition select_by_id :: "db \<Rightarrow> int \<Rightarrow> user_row list" where
  "select_by_id d uid = filter (\<lambda>u. u_id u = uid) (users d)"

record login_body =
  lb_email :: "string option"
  lb_password :: "string option"

text \<open>
  \<open>POST /login\<close>. \<open>compare\<close> stands for \<open>bcrypt.compare\<close> on two strings; the library
  rejects when either argument is missing, and the handler does not catch that.
  \<open>query_fails\<close> says whether the store reports an error for the handler's query.
\<close>

definition post_login ::
  "(string \<Rightarrow> string \<Rightarrow> bool) \<Rightarrow> string \<Rightarrow> int \<Rightarrow> bool \<Rightarrow> login_body \<Rightarrow> db \<Rightarrow> reply" where
  "post_login compare key now query_fails body d =
     (if query_fails then Reply 500 (JObj [(''error'', JStr ''Server error'')])
      else case select_by_email d (lb_email body) of
        [] \<Rightarrow> Reply 401 (JObj [(''error'', JStr ''Invalid credentials'')])
      | user # _ \<Rightarrow>
          (case (lb_password body, u_password user) of
             (Some password, Some hash) \<Rightarrow>
               if \<not> compare password hash
               then Reply 401 (JObj [(''error'', JStr ''Invalid credentials'')])
               else if truthy (u_two_factor_secret user) then
                 (case jwt_sign \<lparr>c_id = u_id user, c_email = u_email user,
                                 c_twoFactorVerified = None, c_iat = None, c_exp = None\<rparr>
                         key 300 now of
                    None \<Rightarrow> Unanswered
                  | Some tempToken \<Rightarrow>
                      Reply 200 (JObj [(''requiresTwoFactor'', JBool True),
                                       (''tempToken'', JTok tempToken)]))
               else
                 (case jwt_sign \<lparr>c_id = u_id user, c_email = u_email user,
                                 c_twoFactorVerified = None, c_iat = None, c_exp = None\<rparr>
                         key 3600 now of
                    None \<Rightarrow> Unanswered
                  | Some accessToken \<Rightarrow>
                      Reply 200 (JObj [(''accessToken'', JTok accessToken),
                                       (''user'', JObj [(''id'', JNum (u_id user)),
                                                        (''email'', JStr (u_email user)),
                                                        (''name'', JStr (u_name user)),
                                                        (''type'', JStr (u_type user))])]))
           | _ \<Rightarrow> Unanswered))"

section \<open>Second factor\<close>

text \<open>
  \<open>speakeasy.totp.verify({secret, encoding, token, window})\<close>. The library is external;
  \<open>totp secret i\<close> stands for the code it derives from a secret at time step \<open>i\<close>, a
  step being 30 seconds. The library gives up unless the submitted text has six
  characters and \<open>parseInt\<close> reads a number from it; it then compares that number with
  what \<open>parseInt\<close> reads from the codes of the steps \<open>counter - window\<close> to
  \<open>counter + window\<close>.
\<close>

definition totp_counter :: "int \<Rightarrow> int" where
  "totp_counter now = now div 30"

definition totp_verify :: "(string \<Rightarrow> int \<Rightarrow> string) \<Rightarrow> string \<Rightarrow> string \<Rightarrow> int \<Rightarrow> int \<Rightarrow> bool" where
  "totp_verify totp secret token window now =
     (if length token \<noteq> 6 then False
      else case parseInt token of
        None \<Rightarrow> False
      | Some n \<Rightarrow>
          list_ex (\<lambda>i. parseInt (totp secret i) = Some n)
            [totp_counter now - window .. totp_counter now + window])"

definition key_of_secret :: "string option \<Rightarrow> string" where
  \<comment> \<open>a NULL \<open>two_factor_secret\<close> is read by the library as the empty key\<close>
  "key_of_secret v = (case v of None \<Rightarrow> [] | Some secret \<Rightarrow> secret)"

text \<open>
  The handler of \<open>POST /2fa/verify\<close>, after authenticateToken; \<open>token\<close> is the submitted
  code. It only reads the store.
\<close>

definition verify_2fa_handler ::
  "(string \<Rightarrow> int \<Rightarrow> string) \<Rightarrow> string \<Rightarrow> int \<Rightarrow> bool \<Rightarrow> string \<Rightarrow> claims \<Rightarrow> db \<Rightarrow> reply \<times> db" where
  "verify_2fa_handler totp key now query_fails token user d =
     (if query_fails then (Reply 500 (JObj [(''error'', JStr ''Failed to verify 2FA'')]), d)
      else case select_by_id d (c_id user) of
        [] \<Rightarrow> (Reply 500 (JObj [(''error'', JStr ''Failed to verify 2FA'')]), d)
      | row # _ \<Rightarrow>
          if totp_verify totp (key_of_secret (u_two_factor_secret row)) token 1 now then
            (case jwt_sign (user\<lparr>c_twoFactorVerified := Some True, c_exp := None\<rparr>)
                    key 3600 now of
               None \<Rightarrow> (Unanswered, d)
             | Some accessToken \<Rightarrow>
                 (Reply 200 (JObj [(''accessToken'', JTok accessToken)]), d))
          else (Reply 401 (JObj [(''error'', JStr ''Invalid 2FA token'')]), d))"

definition post_2fa_verify ::
  "(string \<Rightarrow> int \<Rightarrow> string) \<Rightarrow> string \<Rightarrow> int \<Rightarrow> bool \<Rightarrow> wire list option \<Rightarrow> string \<Rightarrow> db
     \<Rightarrow> reply \<times> db" where
  "post_2fa_verify totp key now query_fails authHeader token d =
     authenticated key now authHeader (verify_2fa_handler totp key now query_fails token) d"

text \<open>
  \<open>POST /2fa/setup\<close>. \<open>secret\<close> is what \<open>speakeasy.generateSecret\<close> produced (its base32
  form) and \<open>qr\<close> what \<open>QRCode.toDataURL\<close> gave for its provisioning URI, if it succeeded.
  The write happens before the QR code is drawn.
\<close>

definition setup_2fa_handler :: "string \<Rightarrow> string option \<Rightarrow> bool \<Rightarrow> claims \<Rightarrow> db \<Rightarrow> reply \<times> db" where
  "setup_2fa_handler secret qr query_fails user d =
     (if query_fails then (Reply 500 (JObj [(''error'', JStr ''Failed to setup 2FA'')]), d)
      else
        (let d' = d\<lparr>users := map (\<lambda>u. if u_id u = c_id user
                                         then u\<lparr>u_two_factor_secret := Some secret\<rparr> else u)
                                  (users d)\<rparr>
         in case qr of
              None \<Rightarrow> (Reply 500 (JObj [(''error'', JStr ''Failed to generate QR code'')]), d')
            | Some data_url \<Rightarrow>
                (Reply 200 (JObj [(''secret'', JStr secret), (''qrCode'', JStr data_url)]), d')))"

definition post_2fa_setup ::
  "string \<Rightarrow> int \<Rightarrow> string \<Rightarrow> string option \<Rightarrow> bool \<Rightarrow> wire list option \<Rightarrow> db \<Rightarrow> reply \<times> db" where
  "post_2fa_setup key now secret qr query_fails authHeader d =
     authenticated key now authHeader (setup_2fa_handler secret qr query_fails) d"

text \<open>
  A third route is registered with authenticateToken, \<open>GET /users/me\<close>, but after
  \<open>GET /users/:id\<close>, whose handler answers every request of that shape. No request
  reaches the later route, so it has no definition here: the routes behind the gate
  are \<open>POST /2fa/setup\<close> and \<open>POST /2fa/verify\<close>.
\<close>

section \<open>Broadcasting to observers\<close>

text \<open>
  The server: the store, the observers (\<open>wss.clients\<close>, in connection order) and the
  messages handed to \<open>client.send\<close> so far, each with the observer it went to. An
  envelope is kept as the JSON value that \<open>JSON.stringify\<close> is applied to.
\<close>

record ws_client =
  ws_id :: nat
  readyState :: nat

definition OPEN :: nat where
  "OPEN = 1"

record server =
  srv_db :: db
  clients :: "ws_client list"
  sent :: "(nat \<times> json) list"

definition json_of_opt :: "string option \<Rightarrow> json" where
  "json_of_opt v = (case v of None \<Rightarrow> JNull | Some x \<Rightarrow> JStr x)"

text \<open>A row of \<open>SELECT * FROM users\<close>: every column of the table.\<close>

definition json_of_row :: "user_row \<Rightarrow> json" where
  "json_of_row u =
     JObj [(''id'', JNum (u_id u)),
           (''name'', JStr (u_name u)),
           (''email'', JStr (u_email u)),
           (''type'', JStr (u_type u)),
           (''image'', json_of_opt (u_image u)),
           (''two_factor_secret'', json_of_opt (u_two_factor_secret u)),
           (''two_factor_enabled'', JNum (if u_two_factor_enabled u then 1 else 0)),
           (''password'', json_of_opt (u_password u))]"

definition getAllUsers :: "bool \<Rightarrow> db \<Rightarrow> json list option" where
  \<comment> \<open>the promise rejects when the query fails\<close>
  "getAllUsers query_fails d =
     (if query_fails then None else Some (map json_of_row (users d)))"

definition broadcastUpdate :: "bool \<Rightarrow> string \<Rightarrow> json \<Rightarrow> server \<Rightarrow> server option" where
  "broadcastUpdate query_fails type data s =
     (case getAllUsers query_fails (srv_db s) of
        None \<Rightarrow> None
      | Some allUsers \<Rightarrow>
          Some (s\<lparr>sent := sent s @
                    map (\<lambda>client. (ws_id client,
                                    JObj [(''type'', JStr type), (''data'', data),
                                          (''allUsers'', JArr allUsers)]))
                        (filter (\<lambda>client. readyState client = OPEN) (clients s))\<rparr>))"

section \<open>Validation\<close>

record user_body =
  ub_name :: "string option"
  ub_email :: "string option"
  ub_type :: "string option"

definition field :: "string option \<Rightarrow> string" where
  \<comment> \<open>the validators read an absent field as the empty string\<close>
  "field v = (case v of None \<Rightarrow> [] | Some x \<Rightarrow> x)"

text \<open>
  \<open>validateUser\<close> followed by \<open>handleValidationErrors\<close>. \<open>isEmail\<close> is the validator
  library's test. Each error is kept as its message and the field it is about. The
  \<open>trim\<close> of the chain also replaces \<open>req.body.name\<close> by the trimmed name.
\<close>

definition validateUser :: "(string \<Rightarrow> bool) \<Rightarrow> user_body \<Rightarrow> json list" where
  "validateUser isEmail body =
     (if trim (field (ub_name body)) = []
      then [JObj [(''msg'', JStr ''Name is required''), (''param'', JStr ''name'')]] else []) @
     (if \<not> isEmail (field (ub_email body))
      then [JObj [(''msg'', JStr ''Invalid email format''), (''param'', JStr ''email'')]] else []) @
     (if field (ub_type body) \<notin> set [''admin'', ''user'']
      then [JObj [(''msg'', JStr ''Type must be either admin or user''), (''param'', JStr ''type'')]]
      else [])"

definition handleValidationErrors :: "json list \<Rightarrow> reply option" where
  "handleValidationErrors errors =
     (if errors \<noteq> [] then Some (Reply 400 (JObj [(''errors'', JArr errors)])) else None)"

section \<open>Directory writes\<close>

text \<open>
  \<open>POST /users\<close>. \<open>fails i\<close> says whether the store reports an error for query \<open>i\<close>
  of the handler: 0 the email check, 1 the insert, 2 the snapshot of the broadcast. A
  rejected broadcast is not caught, and then nothing is answered.
\<close>

definition post_users :: "(string \<Rightarrow> bool) \<Rightarrow> (nat \<Rightarrow> bool) \<Rightarrow> user_body \<Rightarrow> server \<Rightarrow> reply \<times> server" where
  "post_users isEmail fails body s =
     (case handleValidationErrors (validateUser isEmail body) of
        Some rejection \<Rightarrow> (rejection, s)
      | None \<Rightarrow>
          (let name = trim (field (ub_name body));
               email = field (ub_email body);
               type = field (ub_type body);
               d = srv_db s
           in if fails 0 then (Reply 500 (JObj [(''error'', JStr ''Server error'')]), s)
              else if filter (\<lambda>u. u_email u = email) (users d) \<noteq> [] then
                (Reply 400 (JObj [(''errors'',
                   JArr [JObj [(''param'', JStr ''email''),
                               (''msg'', JStr ''Email already exists'')]])]), s)
              else if fails 1 then (Reply 500 (JObj [(''error'', JStr ''Server error'')]), s)
              else
                (let insertId = next_user_id d;
                     s' = s\<lparr>srv_db := d\<lparr>users := users d @
                                 [\<lparr>u_id = insertId, u_name = name, u_email = email,
                                   u_type = type, u_image = None, u_password = None,
                                   u_two_factor_secret = None, u_two_factor_enabled = False\<rparr>],
                               next_user_id := insertId + 1\<rparr>\<rparr>;
                     newUser = JObj [(''id'', JNum insertId), (''name'', JStr name),
                                     (''email'', JStr email), (''type'', JStr type),
                                     (''image'', JNull)]
                 in case broadcastUpdate (fails 2) ''USER_ADDED'' newUser s' of
                      None \<Rightarrow> (Unanswered, s')
                    | Some s'' \<Rightarrow> (Reply 201 newUser, s''))))"

text \<open>
  \<open>PATCH /users/:id\<close>. The path parameter is taken as the integer it denotes and the
  \<open>x-user-id\<close> header as the value the store keeps for it (absent: NULL). Queries: 0 the
  email check, 1 the update, 2 the insert into \<open>logs\<close> (its failure is only printed),
  3 the snapshot of the broadcast.
\<close>

definition patch_users_id ::
  "(string \<Rightarrow> bool) \<Rightarrow> (nat \<Rightarrow> bool) \<Rightarrow> int \<Rightarrow> int \<Rightarrow> int option \<Rightarrow> user_body \<Rightarrow> server
     \<Rightarrow> reply \<times> server" where
  "patch_users_id isEmail fails now id_param userId body s =
     (case handleValidationErrors (validateUser isEmail body) of
        Some rejection \<Rightarrow> (rejection, s)
      | None \<Rightarrow>
          (let name = trim (field (ub_name body));
               email = field (ub_email body);
               type = field (ub_type body);
               d = srv_db s
           in if fails 0 then (Reply 500 (JObj [(''error'', JStr ''Server error'')]), s)
              else if filter (\<lambda>u. u_email u = email \<and> u_id u \<noteq> id_param) (users d) \<noteq> [] then
                (Reply 400 (JObj [(''error'', JStr ''Email already exists'')]), s)
              else if fails 1 then (Reply 500 (JObj [(''error'', JStr ''Server error'')]), s)
              else if filter (\<lambda>u. u_id u = id_param) (users d) = [] then
                (Reply 404 (JObj [(''error'', JStr ''User not found'')]), s)
              else
                (let d' = d\<lparr>users := map (\<lambda>u. if u_id u = id_param
                                                 then u\<lparr>u_name := name, u_email := email,
                                                        u_type := type\<rparr>
                                                 else u) (users d)\<rparr>;
                     d'' = (if fails 2 then d'
                            else d'\<lparr>logs := logs d' @
                                     [\<lparr>l_user_id = userId, l_action = ''update'',
                                       l_entity = ''user'', l_entity_id = id_param,
                                       l_timestamp = now\<rparr>]\<rparr>);
                     s' = s\<lparr>srv_db := d''\<rparr>;
                     updatedUser = JObj [(''id'', JNum id_param), (''name'', JStr name),
                                         (''email'', JStr email), (''type'', JStr type),
                                         (''image'', JNull)]
                 in case broadcastUpdate (fails 3) ''USER_UPDATED'' updatedUser s' of
                      None \<Rightarrow> (Unanswered, s')
                    | Some s'' \<Rightarrow> (Reply 200 updatedUser, s''))))"

section \<open>Background monitoring\<close>

definition digit :: "nat \<Rightarrow> char" where
  \<comment> \<open>the decimal digit, used below 10 only\<close>
  "digit k = ''0123456789'' ! k"

fun show_nat :: "nat \<Rightarrow> string" where
  \<comment> \<open>a count as the template literal prints it\<close>
  "show_nat n =
     (if n < 10 then [digit n]
      else show_nat (n div 10) @ [digit (n mod 10)])"

declare show_nat.simps [simp del]

text \<open>
  The query of the timer callback: the rows of \<open>logs\<close> younger than two minutes with an
  actor that is neither NULL nor 0, grouped by actor, the groups of more than 10 rows
  kept. One result row per actor: the actor and its count.
\<close>

definition suspicious :: "log_row list \<Rightarrow> int \<Rightarrow> (int \<times> nat) list" where
  "suspicious ls now =
     (let recent = filter (\<lambda>l. now - 120 < l_timestamp l \<and>
                                l_user_id l \<noteq> None \<and> l_user_id l \<noteq> Some 0) ls;
          actors = remdups (List.map_filter l_user_id recent)
      in filter (\<lambda>(a, action_count). 10 < action_count)
           (map (\<lambda>a. (a, length (filter (\<lambda>l. l_user_id l = Some a) recent))) actors))"

definition flag_row :: "int \<Rightarrow> nat \<Rightarrow> int \<Rightarrow> monitored_row" where
  "flag_row a action_count now =
     \<lparr>m_user_id = a,
      m_reason = ''High frequency: '' @ show_nat action_count @ '' actions in 2 min'',
      m_detected_at = now\<rparr>"

text \<open>
  \<open>INSERT IGNORE INTO monitored_users\<close>. The table's declaration is not part of the
  sources, so its unique key is a parameter: \<open>uniq r r'\<close> says that two rows collide on
  a unique key of the table. A colliding row is dropped without an error.
\<close>

definition insert_ignore ::
  "(monitored_row \<Rightarrow> monitored_row \<Rightarrow> bool) \<Rightarrow> monitored_row \<Rightarrow> monitored_row list
     \<Rightarrow> monitored_row list" where
  "insert_ignore uniq row tbl = (if list_ex (\<lambda>r. uniq r row) tbl then tbl else tbl @ [row])"


text \<open>\<open>results.forEach\<close>: one insert per result row; a failed insert is only printed.\<close>

fun flag_all ::
  "(monitored_row \<Rightarrow> monitored_row \<Rightarrow> bool) \<Rightarrow> (int \<Rightarrow> bool) \<Rightarrow> int \<Rightarrow> (int \<times> nat) list
     \<Rightarrow> monitored_row list \<Rightarrow> monitored_row list" where
  "flag_all uniq insert_fails now [] tbl = tbl"
| "flag_all uniq insert_fails now ((a, action_count) # results) tbl =
     flag_all uniq insert_fails now results
       (if insert_fails a then tbl
        else insert_ignore uniq (flag_row a action_count now) tbl)"

text \<open>One run of the timer callback at time \<open>now\<close>.\<close>

definition monitoring_tick ::
  "(monitored_row \<Rightarrow> monitored_row \<Rightarrow> bool) \<Rightarrow> bool \<Rightarrow> (int \<Rightarrow> bool) \<Rightarrow> int \<Rightarrow> db \<Rightarrow> db" where
  "monitoring_tick uniq query_fails insert_fails now d =
     (if query_fails then d
      else d\<lparr>monitored_users :=
               flag_all uniq insert_fails now (suspicious (logs d) now) (monitored_users d)\<rparr>)"

section \<open>Example states\<close>

text \<open>
  A small registry used to run the handlers: Ann has a second factor enrolled, Bob has
  none and has an avatar; one observer is connected and open, one is closed.
\<close>

definition enrolled_db :: db where
  "enrolled_db =
     \<lparr>users = [\<lparr>u_id = 7, u_name = ''Ann'', u_email = ''ann@x.org'', u_type = ''user'',
                u_image = None, u_password = Some ''pw'',
                u_two_factor_secret = Some ''JBSWY3DP'', u_two_factor_enabled = False\<rparr>,
               \<lparr>u_id = 8, u_name = ''Bob'', u_email = ''bob@x.org'', u_type = ''admin'',
                u_image = Some ''bob.png'', u_password = Some ''hunter2'',
                u_two_factor_secret = None, u_two_factor_enabled = False\<rparr>],
      next_user_id = 9, logs = [], monitored_users = []\<rparr>"

definition example_server :: server where
  "example_server =
     \<lparr>srv_db = enrolled_db,
      clients = [\<lparr>ws_id = 1, readyState = 1\<rparr>, \<lparr>ws_id = 2, readyState = 3\<rparr>],
      sent = []\<rparr>"

definition directory_db :: db where
  \<comment> \<open>the registry after Cy was added through \<open>POST /users\<close>: a row without a password\<close>
  "directory_db =
     enrolled_db\<lparr>users := users enrolled_db @
                    [\<lparr>u_id = 9, u_name = ''Cy'', u_email = ''cy@x.org'', u_type = ''user'',
                      u_image = None, u_password = None, u_two_factor_secret = None,
                      u_two_factor_enabled = False\<rparr>],
                 next_user_id := 10\<rparr>"

definition pending_claims :: claims where
  \<comment> \<open>the claims of the token that a login of Ann at time 1000 issues\<close>
  "pending_claims = \<lparr>c_id = 7, c_email = ''ann@x.org'', c_twoFactorVerified = None,
                     c_iat = Some 1000, c_exp = Some 1300\<rparr>"

definition expired_claims :: claims where
  "expired_claims = \<lparr>c_id = 7, c_email = ''ann@x.org'', c_twoFactorVerified = None,
                     c_iat = Some 100, c_exp = Some 400\<rparr>"

text \<open>Stand-ins for the library functions the handlers are parameterised by.\<close>

definition has_at :: "string \<Rightarrow> bool" where
  "has_at e = (CHR ''@'' \<in> set e)"

definition example_totp :: "string \<Rightarrow> int \<Rightarrow> string" where
  \<comment> \<open>six digits with a leading zero, different for each of a thousand steps\<close>
  "example_totp secret i =
     CHR ''0'' # show_nat (10000 + 1000 * length secret + nat (i mod 1000))"

definition no_key :: "monitored_row \<Rightarrow> monitored_row \<Rightarrow> bool" where
  \<comment> \<open>\<open>monitored_users\<close> has no unique key\<close>
  "no_key r r' = False"

definition burst_db :: "nat \<Rightarrow> db" where
  \<comment> \<open>\<open>n\<close> updates by actor 5 at time 1000; the run at time 880 had flagged the actor\<close>
  "burst_db n =
     \<lparr>users = [], next_user_id = 1,
      logs = replicate n \<lparr>l_user_id = Some 5, l_action = ''update'', l_entity = ''user'',
                           l_entity_id = 1, l_timestamp = 1000\<rparr>,
      monitored_users = [\<lparr>m_user_id = 5, m_reason = ''High frequency: 12 actions in 2 min'',
                          m_detected_at = 880\<rparr>]\<rparr>"

section \<open>Tokens and the authentication gate\<close>

lemma jwt_sign_fresh:
  "jwt_sign \<lparr>c_id = i, c_email = e, c_twoFactorVerified = None, c_iat = None, c_exp = None\<rparr>
     key ttl now =
   Some (Signed \<lparr>c_id = i, c_email = e, c_twoFactorVerified = None, c_iat = Some now,
                  c_exp = Some (now + ttl)\<rparr> key)"
  by (simp add: jwt_sign_def)

lemma bearer_token_Bearer:
  "bearer_token (Some [Opaque ''Bearer'', Signed c k]) = Some (Signed c k)"
  by (simp add: bearer_token_def)

lemma login_of_Ann:
  "post_login (=) ''k'' 1000 False
     \<lparr>lb_email = Some ''ann@x.org'', lb_password = Some ''pw''\<rparr> enrolled_db =
   Reply 200 (JObj [(''requiresTwoFactor'', JBool True),
                    (''tempToken'', JTok (Signed pending_claims ''k''))])"
  by (simp add: post_login_def select_by_email_def enrolled_db_def truthy_def jwt_sign_fresh
      pending_claims_def)

text \<open>
  Claim C1 fails on the code: Ann has a second factor enrolled, her login at time 1000
  gives the pending token (no verified flag), and ten seconds later \<open>POST /2fa/setup\<close>
  takes that token, answers 200 and replaces her enrolled secret.
\<close>

theorem pending_token_replaces_secret:
  "post_login (=) ''k'' 1000 False
     \<lparr>lb_email = Some ''ann@x.org'', lb_password = Some ''pw''\<rparr> enrolled_db =
     Reply 200 (JObj [(''requiresTwoFactor'', JBool True),
                      (''tempToken'', JTok (Signed pending_claims ''k''))]) \<and>
   c_twoFactorVerified pending_claims = None \<and>
   post_2fa_setup ''k'' 1010 ''NEWSECRET'' (Some ''data:image/png'') False
     (Some [Opaque ''Bearer'', Signed pending_claims ''k'']) enrolled_db =
     (Reply 200 (JObj [(''secret'', JStr ''NEWSECRET''), (''qrCode'', JStr ''data:image/png'')]),
      enrolled_db\<lparr>users :=
        [\<lparr>u_id = 7, u_name = ''Ann'', u_email = ''ann@x.org'', u_type = ''user'',
          u_image = None, u_password = Some ''pw'',
          u_two_factor_secret = Some ''NEWSECRET'', u_two_factor_enabled = False\<rparr>,
         \<lparr>u_id = 8, u_name = ''Bob'', u_email = ''bob@x.org'', u_type = ''admin'',
          u_image = Some ''bob.png'', u_password = Some ''hunter2'',
          u_two_factor_secret = None, u_two_factor_enabled = False\<rparr>]\<rparr>)"
  by (simp add: login_of_Ann)
     (simp add: pending_claims_def post_2fa_setup_def authenticated_def authenticateToken_def
        bearer_token_def jwt_verify_def setup_2fa_handler_def enrolled_db_def)

text \<open>
  The gate looks at the signature and the expiry only: the pending token that a login
  issues at time \<open>t\<close> lets the handler of every route behind the gate run, with its
  claims, at any time before \<open>t + 300\<close>, and is answered 403 from then on.
\<close>

lemma pending_token_accepted_until_expiry:
  assumes "post_login compare key t False body d =
             Reply 200 (JObj [(''requiresTwoFactor'', JBool True), (''tempToken'', JTok tok)])"
  shows "\<exists>c. tok = Signed c key \<and> c_twoFactorVerified c = None \<and> c_exp c = Some (t + 300) \<and>
             (\<forall>now handler s.
                authenticated key now (Some [Opaque ''Bearer'', tok]) handler s =
                  (if now < t + 300 then handler c s
                   else (Reply 403 (JObj [(''error'', JStr ''Invalid or expired token'')]), s)))"
  using assms
  by (auto simp: post_login_def jwt_sign_fresh authenticated_def authenticateToken_def
      bearer_token_def jwt_verify_def split: list.splits option.splits if_splits)

text \<open>
  Claim C7, as stated, fails: on \<open>POST /2fa/setup\<close> a request without a token and a
  request with an expired token are not answered with the same error.
\<close>

theorem uniform_unauthorized_counterexample:
  "fst (post_2fa_setup ''k'' 500 ''NEWSECRET'' (Some ''data:image/png'') False None
          enrolled_db) =
     Reply 401 (JObj [(''error'', JStr ''Access token required'')]) \<and>
   fst (post_2fa_setup ''k'' 500 ''NEWSECRET'' (Some ''data:image/png'') False
          (Some [Opaque ''Bearer'', Signed expired_claims ''k'']) enrolled_db) =
     Reply 403 (JObj [(''error'', JStr ''Invalid or expired token'')]) \<and>
   fst (post_2fa_setup ''k'' 500 ''NEWSECRET'' (Some ''data:image/png'') False None
          enrolled_db) \<noteq>
   fst (post_2fa_setup ''k'' 500 ''NEWSECRET'' (Some ''data:image/png'') False
          (Some [Opaque ''Bearer'', Signed expired_claims ''k'']) enrolled_db)"
  by (simp add: post_2fa_setup_def authenticated_def authenticateToken_def bearer_token_def
      jwt_verify_def expired_claims_def)

text \<open>
  Claim C7, as amended: on every route behind authenticateToken, whatever its handler,
  a request without a token is answered 401 "Access token required", a request whose
  token is invalid or expired is answered 403 "Invalid or expired token" (one answer for
  these two cases), and in both cases the handler does not run: the state is the one
  before the request.
\<close>

theorem rejected_before_handler:
  "(bearer_token authHeader = None \<longrightarrow>
      authenticated key now authHeader handler s =
        (Reply 401 (JObj [(''error'', JStr ''Access token required'')]), s)) \<and>
   (\<forall>token err. bearer_token authHeader = Some token \<and> jwt_verify token key now = Inl err \<longrightarrow>
      authenticated key now authHeader handler s =
        (Reply 403 (JObj [(''error'', JStr ''Invalid or expired token'')]), s))"
  by (simp add: authenticated_def authenticateToken_def)

theorem rejected_before_handler_witness:
  "authenticated ''k'' 500 None (setup_2fa_handler ''NEWSECRET'' (Some ''data:image/png'') False)
     enrolled_db =
     (Reply 401 (JObj [(''error'', JStr ''Access token required'')]), enrolled_db) \<and>
   authenticated ''k'' 500 (Some [Opaque ''Bearer'', Opaque ''junk''])
     (setup_2fa_handler ''NEWSECRET'' (Some ''data:image/png'') False) enrolled_db =
     (Reply 403 (JObj [(''error'', JStr ''Invalid or expired token'')]), enrolled_db) \<and>
   authenticated ''k'' 500 (Some [Opaque ''Bearer'', Signed expired_claims ''other-key''])
     (setup_2fa_handler ''NEWSECRET'' (Some ''data:image/png'') False) enrolled_db =
     (Reply 403 (JObj [(''error'', JStr ''Invalid or expired token'')]), enrolled_db) \<and>
   authenticated ''k'' 500 (Some [Opaque ''Bearer'', Signed expired_claims ''k''])
     (setup_2fa_handler ''NEWSECRET'' (Some ''data:image/png'') False) enrolled_db =
     (Reply 403 (JObj [(''error'', JStr ''Invalid or expired token'')]), enrolled_db)"
  using
    rejected_before_handler [of None "''k''" 500
      "setup_2fa_handler ''NEWSECRET'' (Some ''data:image/png'') False" enrolled_db]
    rejected_before_handler [of "Some [Opaque ''Bearer'', Opaque ''junk'']" "''k''" 500
      "setup_2fa_handler ''NEWSECRET'' (Some ''data:image/png'') False" enrolled_db]
    rejected_before_handler [of "Some [Opaque ''Bearer'', Signed expired_claims ''other-key'']"
      "''k''" 500 "setup_2fa_handler ''NEWSECRET'' (Some ''data:image/png'') False" enrolled_db]
    rejected_before_handler [of "Some [Opaque ''Bearer'', Signed expired_claims ''k'']"
      "''k''" 500 "setup_2fa_handler ''NEWSECRET'' (Some ''data:image/png'') False" enrolled_db]
  by (simp add: bearer_token_def jwt_verify_def expired_claims_def)

section \<open>Login and the second factor\<close>

lemma find_filter:
  "List.find P xs = Some x \<Longrightarrow> \<exists>rest. filter P xs = x # rest"
  by (induction xs) (auto split: if_splits)

text \<open>
  Claim C5 fails on the code: Cy was added through \<open>POST /users\<close> and has no password
  hash, and a login with Cy's email is left without any answer; so is a login for Ann
  that sends no password. In both \<open>bcrypt.compare\<close> rejects and nothing catches it.
\<close>

theorem login_without_hash_unanswered:
  "post_login (=) ''k'' 1000 False
     \<lparr>lb_email = Some ''cy@x.org'', lb_password = Some ''guess''\<rparr> directory_db =
     Unanswered \<and>
   post_login (=) ''k'' 1000 False
     \<lparr>lb_email = Some ''ann@x.org'', lb_password = None\<rparr> enrolled_db = Unanswered"
  by (simp add: post_login_def select_by_email_def directory_db_def enrolled_db_def)

text \<open>
  Where \<open>bcrypt.compare\<close> gets both its arguments and the store answers, a login does
  what is expected of it: 401 "Invalid credentials" for an email no user has and for a
  password the stored hash of the first user with the email does not match; a one-hour
  token and the profile made of exactly id, email, name and type for a user without a
  second-factor secret; \<open>requiresTwoFactor\<close> and a five-minute token, and nothing
  else, for an enrolled user.
\<close>

lemma login_contract:
  assumes "\<not> query_fails"
  shows "((\<forall>u \<in> set (users d). Some (u_email u) \<noteq> lb_email body) \<longrightarrow>
            post_login compare key now query_fails body d =
              Reply 401 (JObj [(''error'', JStr ''Invalid credentials'')])) \<and>
         (\<forall>email user password hash.
            lb_email body = Some email \<and>
            List.find (\<lambda>u. u_email u = email) (users d) = Some user \<and>
            lb_password body = Some password \<and> u_password user = Some hash \<longrightarrow>
              (\<not> compare password hash \<longrightarrow>
                 post_login compare key now query_fails body d =
                   Reply 401 (JObj [(''error'', JStr ''Invalid credentials'')])) \<and>
              (compare password hash \<and> \<not> truthy (u_two_factor_secret user) \<longrightarrow>
                 post_login compare key now query_fails body d =
                   Reply 200 (JObj [(''accessToken'',
                       JTok (Signed \<lparr>c_id = u_id user, c_email = u_email user,
                                      c_twoFactorVerified = None, c_iat = Some now,
                                      c_exp = Some (now + 3600)\<rparr> key)),
                     (''user'', JObj [(''id'', JNum (u_id user)),
                                      (''email'', JStr (u_email user)),
                                      (''name'', JStr (u_name user)),
                                      (''type'', JStr (u_type user))])])) \<and>
              (compare password hash \<and> truthy (u_two_factor_secret user) \<longrightarrow>
                 post_login compare key now query_fails body d =
                   Reply 200 (JObj [(''requiresTwoFactor'', JBool True),
                     (''tempToken'',
                       JTok (Signed \<lparr>c_id = u_id user, c_email = u_email user,
                                      c_twoFactorVerified = None, c_iat = Some now,
                                      c_exp = Some (now + 300)\<rparr> key))])))"
proof (intro conjI impI allI)
  assume "\<forall>u \<in> set (users d). Some (u_email u) \<noteq> lb_email body"
  then have "select_by_email d (lb_email body) = []"
    by (auto simp: select_by_email_def filter_empty_conv split: option.splits)
  with assms show "post_login compare key now query_fails body d =
      Reply 401 (JObj [(''error'', JStr ''Invalid credentials'')])"
    by (simp add: post_login_def)
next
  fix email user password hash
  assume h: "lb_email body = Some email \<and>
            List.find (\<lambda>u. u_email u = email) (users d) = Some user \<and>
            lb_password body = Some password \<and> u_password user = Some hash"
  then obtain rest where sel: "select_by_email d (lb_email body) = user # rest"
    using find_filter [of "\<lambda>u. u_email u = email" "users d" user]
    by (auto simp: select_by_email_def)
  { assume "\<not> compare password hash"
    with assms h sel show "post_login compare key now query_fails body d =
      Reply 401 (JObj [(''error'', JStr ''Invalid credentials'')])"
      by (simp add: post_login_def) }
  { assume "compare password hash \<and> \<not> truthy (u_two_factor_secret user)"
    with assms h sel show "post_login compare key now query_fails body d =
                   Reply 200 (JObj [(''accessToken'',
                       JTok (Signed \<lparr>c_id = u_id user, c_email = u_email user,
                                      c_twoFactorVerified = None, c_iat = Some now,
                                      c_exp = Some (now + 3600)\<rparr> key)),
                     (''user'', JObj [(''id'', JNum (u_id user)),
                                      (''email'', JStr (u_email user)),
                                      (''name'', JStr (u_name user)),
                                      (''type'', JStr (u_type user))])])"
      by (simp add: post_login_def jwt_sign_fresh) }
  { assume "compare password hash \<and> truthy (u_two_factor_secret user)"
    with assms h sel show "post_login compare key now query_fails body d =
                   Reply 200 (JObj [(''requiresTwoFactor'', JBool True),
                     (''tempToken'',
                       JTok (Signed \<lparr>c_id = u_id user, c_email = u_email user,
                                      c_twoFactorVerified = None, c_iat = Some now,
                                      c_exp = Some (now + 300)\<rparr> key))])"
      by (simp add: post_login_def jwt_sign_fresh) }
qed

lemma totp_verify_window:
  "totp_verify totp secret token 1 now \<longleftrightarrow>
     length token = 6 \<and>
     (\<exists>i n. \<bar>i - totp_counter now\<bar> \<le> 1 \<and> parseInt token = Some n \<and>
            parseInt (totp secret i) = Some n)"
proof -
  have "set [totp_counter now - 1 .. totp_counter now + 1] = {i. \<bar>i - totp_counter now\<bar> \<le> 1}"
    by auto
  then show ?thesis
    unfolding totp_verify_def list_ex_iff by (auto split: option.splits)
qed

lemma example_codes:
  "example_totp ''JBSWY3DP'' 39 = ''018039''"
  "example_totp ''JBSWY3DP'' 40 = ''018040''"
  "example_totp ''JBSWY3DP'' 41 = ''018041''"
  by (simp_all add: example_totp_def show_nat.simps digit_def)

lemma example_parses:
  "parseInt ''018039'' = Some 18039"
  "parseInt ''018040'' = Some 18040"
  "parseInt ''018041'' = Some 18041"
  "parseInt ''018042'' = Some 18042"
  "parseInt ''+18040'' = Some 18040"
  by (simp_all add: parseInt_def is_space_def is_digit_def digit_value_def Let_def)

lemma window_at_1200: "[totp_counter 1200 - 1 .. totp_counter 1200 + 1] = [39, 40, 41]"
  by (simp add: totp_counter_def upto_rec_numeral)

lemma example_code_accepted: "totp_verify example_totp ''JBSWY3DP'' ''018040'' 1 1200"
  by (simp add: totp_verify_def window_at_1200 example_codes example_parses)

lemma example_code_refused: "\<not> totp_verify example_totp ''JBSWY3DP'' ''018042'' 1 1200"
  by (simp add: totp_verify_def window_at_1200 example_codes example_parses)

lemma signed_text_accepted: "totp_verify example_totp ''JBSWY3DP'' ''+18040'' 1 1200"
  by (simp add: totp_verify_def window_at_1200 example_codes example_parses)

text \<open>
  Claim C6, as stated, fails: at time 1200 the codes of Ann's secret at the steps 39,
  40 and 41 are 018039, 018040 and 018041; the submitted text +18040 is none of them
  and is accepted, and the token issued expires at 4600, an hour after Ann's login at
  1000, not an hour after the verification.
\<close>

theorem second_factor_counterexample:
  "map (example_totp ''JBSWY3DP'') [39, 40, 41] = [''018039'', ''018040'', ''018041''] \<and>
   totp_counter 1200 = 40 \<and>
   post_2fa_verify example_totp ''k'' 1200 False
     (Some [Opaque ''Bearer'', Signed pending_claims ''k'']) ''+18040'' enrolled_db =
     (Reply 200 (JObj [(''accessToken'',
        JTok (Signed \<lparr>c_id = 7, c_email = ''ann@x.org'', c_twoFactorVerified = Some True,
                       c_iat = Some 1000, c_exp = Some 4600\<rparr> ''k''))]), enrolled_db)"
  by (simp add: example_codes totp_counter_def)
     (simp add: post_2fa_verify_def authenticated_def authenticateToken_def bearer_token_def
        jwt_verify_def pending_claims_def verify_2fa_handler_def select_by_id_def
        enrolled_db_def key_of_secret_def signed_text_accepted jwt_sign_def)

text \<open>
  Claim C6, as amended: a second-factor verification that presents a valid, unexpired
  token, the store answering and the first row with the token's user id being \<open>r\<close>,
  accepts the submitted text exactly when it has six characters and \<open>parseInt\<close> reads
  from it the number it reads from the code of the key stored in \<open>r\<close> at a time step
  at most one away from the current one. On acceptance the answer is the token that
  \<open>jwt.sign\<close> makes, for a lifetime of one hour, from the presented claims with the
  verified flag set and the expiry removed. Otherwise the answer is 401
  "Invalid 2FA token".
\<close>

theorem second_factor_window:
  assumes "bearer_token authHeader = Some tok"
      and "jwt_verify tok key now = Inr c"
      and "\<not> query_fails"
      and "List.find (\<lambda>u. u_id u = c_id c) (users d) = Some r"
  shows "\<exists>accessToken.
           jwt_sign (c\<lparr>c_twoFactorVerified := Some True, c_exp := None\<rparr>) key 3600 now =
             Some accessToken \<and>
           post_2fa_verify totp key now query_fails authHeader code d =
             (if length code = 6 \<and>
                 (\<exists>i n. \<bar>i - totp_counter now\<bar> \<le> 1 \<and> parseInt code = Some n \<and>
                        parseInt (totp (key_of_secret (u_two_factor_secret r)) i) = Some n)
              then Reply 200 (JObj [(''accessToken'', JTok accessToken)])
              else Reply 401 (JObj [(''error'', JStr ''Invalid 2FA token'')]), d)"
proof -
  obtain rest where sel: "select_by_id d (c_id c) = r # rest"
    using find_filter [OF assms(4)] by (auto simp: select_by_id_def)
  obtain accessToken where
    sign: "jwt_sign (c\<lparr>c_twoFactorVerified := Some True, c_exp := None\<rparr>) key 3600 now =
             Some accessToken"
    by (simp add: jwt_sign_def Let_def)
  show ?thesis
    using assms(1-3) sel sign
    by (simp add: post_2fa_verify_def authenticated_def authenticateToken_def
        verify_2fa_handler_def totp_verify_window)
qed

text \<open>
  The token of an accepted verification, written out: the issue time is the one the
  presented claims carry (the current time when they carry none), and the expiry is
  that issue time plus one hour.
\<close>

lemma verified_token_expiry:
  "jwt_sign (c\<lparr>c_twoFactorVerified := Some True, c_exp := None\<rparr>) key 3600 now =
   Some (Signed (c\<lparr>c_twoFactorVerified := Some True,
                   c_iat := Some (case c_iat c of None \<Rightarrow> now
                                  | Some t \<Rightarrow> if t = 0 then now else t),
                   c_exp := Some ((case c_iat c of None \<Rightarrow> now
                                   | Some t \<Rightarrow> if t = 0 then now else t) + 3600)\<rparr>) key)"
  by (simp add: jwt_sign_def Let_def)

theorem second_factor_window_witness:
  "post_2fa_verify example_totp ''k'' 1200 False
     (Some [Opaque ''Bearer'', Signed pending_claims ''k'']) ''018040'' enrolled_db =
     (Reply 200 (JObj [(''accessToken'',
        JTok (Signed \<lparr>c_id = 7, c_email = ''ann@x.org'', c_twoFactorVerified = Some True,
                       c_iat = Some 1000, c_exp = Some 4600\<rparr> ''k''))]), enrolled_db) \<and>
   post_2fa_verify example_totp ''k'' 1200 False
     (Some [Opaque ''Bearer'', Signed pending_claims ''k'']) ''018042'' enrolled_db =
     (Reply 401 (JObj [(''error'', JStr ''Invalid 2FA token'')]), enrolled_db)"
proof -
  have tok: "bearer_token (Some [Opaque ''Bearer'', Signed pending_claims ''k'']) =
             Some (Signed pending_claims ''k'')"
    by (rule bearer_token_Bearer)
  have ver: "jwt_verify (Signed pending_claims ''k'') ''k'' 1200 = Inr pending_claims"
    by (simp add: jwt_verify_def pending_claims_def)
  have ok: "\<not> False" by simp
  have row: "List.find (\<lambda>u. u_id u = c_id pending_claims) (users enrolled_db) =
               Some \<lparr>u_id = 7, u_name = ''Ann'', u_email = ''ann@x.org'', u_type = ''user'',
                     u_image = None, u_password = Some ''pw'',
                     u_two_factor_secret = Some ''JBSWY3DP'', u_two_factor_enabled = False\<rparr>"
    by (simp add: enrolled_db_def pending_claims_def)
  have sign: "jwt_sign (pending_claims\<lparr>c_twoFactorVerified := Some True, c_exp := None\<rparr>)
                ''k'' 3600 1200 =
              Some (Signed \<lparr>c_id = 7, c_email = ''ann@x.org'', c_twoFactorVerified = Some True,
                             c_iat = Some 1000, c_exp = Some 4600\<rparr> ''k'')"
    by (simp add: jwt_sign_def pending_claims_def)
  note yes = example_code_accepted [unfolded totp_verify_window]
  note no = example_code_refused [unfolded totp_verify_window]
  show ?thesis
    using second_factor_window [OF tok ver ok row, where totp = example_totp and code = "''018040''"]
          second_factor_window [OF tok ver ok row, where totp = example_totp and code = "''018042''"]
          sign yes no
    by (simp add: key_of_secret_def)
qed

section \<open>Broadcasts and directory writes\<close>

text \<open>
  Claim C2 fails on the code: the snapshot of a broadcast is \<open>SELECT * FROM users\<close>, so
  the envelope that the open observer receives holds Ann's second-factor secret and both
  password hashes.
\<close>

theorem broadcast_serializes_secrets:
  "map_option sent (broadcastUpdate False ''USER_UPDATED'' JNull example_server) =
     Some [(1, JObj [(''type'', JStr ''USER_UPDATED''), (''data'', JNull),
                     (''allUsers'', JArr
                        [JObj [(''id'', JNum 7), (''name'', JStr ''Ann''),
                               (''email'', JStr ''ann@x.org''), (''type'', JStr ''user''),
                               (''image'', JNull), (''two_factor_secret'', JStr ''JBSWY3DP''),
                               (''two_factor_enabled'', JNum 0), (''password'', JStr ''pw'')],
                         JObj [(''id'', JNum 8), (''name'', JStr ''Bob''),
                               (''email'', JStr ''bob@x.org''), (''type'', JStr ''admin''),
                               (''image'', JStr ''bob.png''), (''two_factor_secret'', JNull),
                               (''two_factor_enabled'', JNum 0),
                               (''password'', JStr ''hunter2'')]])])]"
  by (simp add: broadcastUpdate_def getAllUsers_def example_server_def enrolled_db_def
      json_of_row_def json_of_opt_def OPEN_def)

text \<open>Changing nothing but a stored password hash changes what the observers are sent.\<close>

lemma broadcast_depends_on_hash:
  "map_option sent (broadcastUpdate False ''USER_UPDATED'' JNull
     (example_server\<lparr>srv_db := enrolled_db\<lparr>users :=
        map (\<lambda>u. u\<lparr>u_password := Some ''other''\<rparr>) (users enrolled_db)\<rparr>\<rparr>)) \<noteq>
   map_option sent (broadcastUpdate False ''USER_UPDATED'' JNull example_server)"
  by (simp add: broadcastUpdate_def getAllUsers_def example_server_def enrolled_db_def
      json_of_row_def json_of_opt_def OPEN_def)

lemma trim_Cy: "trim '' Cy '' = ''Cy''"
  by (simp add: trim_def is_space_def)

text \<open>
  Claim C3 fails on the code: a valid create request with a new email is answered 201,
  the entry is stored and the open observer is sent one \<open>USER_ADDED\<close> envelope whose
  snapshot has the new entry, but \<open>logs\<close> is as before: no create event is written.
\<close>

theorem create_writes_no_log_event:
  "post_users has_at (\<lambda>i. False)
     \<lparr>ub_name = Some '' Cy '', ub_email = Some ''cy@x.org'', ub_type = Some ''user''\<rparr>
     example_server =
   (Reply 201 (JObj [(''id'', JNum 9), (''name'', JStr ''Cy''), (''email'', JStr ''cy@x.org''),
                     (''type'', JStr ''user''), (''image'', JNull)]),
    example_server
      \<lparr>srv_db := enrolled_db
         \<lparr>users := users enrolled_db @
            [\<lparr>u_id = 9, u_name = ''Cy'', u_email = ''cy@x.org'', u_type = ''user'',
              u_image = None, u_password = None, u_two_factor_secret = None,
              u_two_factor_enabled = False\<rparr>],
          next_user_id := 10, logs := []\<rparr>,
       sent := [(1, JObj [(''type'', JStr ''USER_ADDED''),
                          (''data'', JObj [(''id'', JNum 9), (''name'', JStr ''Cy''),
                                           (''email'', JStr ''cy@x.org''),
                                           (''type'', JStr ''user''), (''image'', JNull)]),
                          (''allUsers'', JArr (map json_of_row (users enrolled_db @
            [\<lparr>u_id = 9, u_name = ''Cy'', u_email = ''cy@x.org'', u_type = ''user'',
              u_image = None, u_password = None, u_two_factor_secret = None,
              u_two_factor_enabled = False\<rparr>])))])]\<rparr>)"
  by (simp add: post_users_def handleValidationErrors_def validateUser_def field_def trim_Cy
      has_at_def example_server_def enrolled_db_def broadcastUpdate_def getAllUsers_def OPEN_def
      Let_def)

text \<open>No path of \<open>POST /users\<close> writes to \<open>logs\<close>.\<close>

lemma post_users_keeps_logs:
  "logs (srv_db (snd (post_users isEmail fails body s))) = logs (srv_db s)"
  by (simp add: post_users_def broadcastUpdate_def getAllUsers_def Let_def
      split: option.splits)

text \<open>
  What a valid create request with a new email does when the store answers every
  query: the entry is appended under the next id and every open observer is sent one
  \<open>USER_ADDED\<close> envelope with the snapshot taken after the insert.
\<close>

lemma post_users_created:
  assumes "validateUser isEmail body = []"
      and "\<not> fails 0" and "\<not> fails 1" and "\<not> fails 2"
      and "\<forall>u \<in> set (users (srv_db s)). u_email u \<noteq> field (ub_email body)"
  shows "\<exists>newUser row s'.
           post_users isEmail fails body s = (Reply 201 newUser, s') \<and>
           row = \<lparr>u_id = next_user_id (srv_db s), u_name = trim (field (ub_name body)),
                  u_email = field (ub_email body), u_type = field (ub_type body),
                  u_image = None, u_password = None, u_two_factor_secret = None,
                  u_two_factor_enabled = False\<rparr> \<and>
           users (srv_db s') = users (srv_db s) @ [row] \<and>
           sent s' = sent s @
             map (\<lambda>client. (ws_id client,
                    JObj [(''type'', JStr ''USER_ADDED''), (''data'', newUser),
                          (''allUsers'', JArr (map json_of_row (users (srv_db s) @ [row])))]))
                 (filter (\<lambda>client. readyState client = OPEN) (clients s))"
proof -
  have "filter (\<lambda>u. u_email u = field (ub_email body)) (users (srv_db s)) = []"
    using assms(5) by (simp add: filter_empty_conv)
  then show ?thesis
    using assms(1-4)
    by (simp add: post_users_def handleValidationErrors_def Let_def broadcastUpdate_def
        getAllUsers_def)
qed

text \<open>
  Claim C4: a create or update request that passes validation, the store answering the
  email check, and whose email is that of an existing entry (for an update: of an entry
  with another id) is answered 400 "Email already exists", and the whole server state
  (registry, \<open>logs\<close>, messages sent to observers) is the one before the request. An
  update whose email is held by no entry other than the updated one is not answered
  that way.
\<close>

theorem duplicate_email_rejected:
  assumes "validateUser isEmail body = []" and "\<not> fails 0"
  shows "((\<exists>u \<in> set (users (srv_db s)). u_email u = field (ub_email body)) \<longrightarrow>
            post_users isEmail fails body s =
              (Reply 400 (JObj [(''errors'',
                 JArr [JObj [(''param'', JStr ''email''),
                             (''msg'', JStr ''Email already exists'')]])]), s)) \<and>
         ((\<exists>u \<in> set (users (srv_db s)).
              u_email u = field (ub_email body) \<and> u_id u \<noteq> id_param) \<longrightarrow>
            patch_users_id isEmail fails now id_param userId body s =
              (Reply 400 (JObj [(''error'', JStr ''Email already exists'')]), s)) \<and>
         ((\<forall>u \<in> set (users (srv_db s)).
              u_email u = field (ub_email body) \<longrightarrow> u_id u = id_param) \<longrightarrow>
            fst (patch_users_id isEmail fails now id_param userId body s) \<noteq>
              Reply 400 (JObj [(''error'', JStr ''Email already exists'')]))"
  using assms
  by (auto simp: post_users_def patch_users_id_def handleValidationErrors_def Let_def
      filter_empty_conv broadcastUpdate_def getAllUsers_def split: option.splits)

lemma valid_ann_body:
  "validateUser has_at
     \<lparr>ub_name = Some ''Annie'', ub_email = Some ''ann@x.org'', ub_type = Some ''admin''\<rparr> = []"
  by (simp add: validateUser_def field_def trim_def is_space_def has_at_def)

theorem duplicate_email_rejected_witness:
  "post_users has_at (\<lambda>i. False)
     \<lparr>ub_name = Some ''Annie'', ub_email = Some ''ann@x.org'', ub_type = Some ''admin''\<rparr>
     example_server =
     (Reply 400 (JObj [(''errors'',
        JArr [JObj [(''param'', JStr ''email''), (''msg'', JStr ''Email already exists'')]])]),
      example_server) \<and>
   patch_users_id has_at (\<lambda>i. False) 1000 8 (Some 7)
     \<lparr>ub_name = Some ''Annie'', ub_email = Some ''ann@x.org'', ub_type = Some ''admin''\<rparr>
     example_server =
     (Reply 400 (JObj [(''error'', JStr ''Email already exists'')]), example_server) \<and>
   fst (patch_users_id has_at (\<lambda>i. False) 1000 7 (Some 7)
     \<lparr>ub_name = Some ''Annie'', ub_email = Some ''ann@x.org'', ub_type = Some ''admin''\<rparr>
     example_server) \<noteq>
     Reply 400 (JObj [(''error'', JStr ''Email already exists'')])"
  using
    duplicate_email_rejected [OF valid_ann_body, of "\<lambda>i. False" example_server 8 1000 "Some 7"]
    duplicate_email_rejected [OF valid_ann_body, of "\<lambda>i. False" example_server 7 1000 "Some 7"]
  by (simp add: example_server_def enrolled_db_def field_def)

text \<open>
  Claim C10: whenever an update is answered 200, the stored entry with that id has its
  name, email and type replaced and every other column, the image among them, left as
  it was, while the response body, which is also the \<open>data\<close> of the \<open>USER_UPDATED\<close>
  envelope sent to each open observer, gives \<open>image\<close> as null.
\<close>

theorem update_reports_null_image:
  assumes "patch_users_id isEmail fails now id_param userId body s = (Reply 200 b, s')"
  shows "b = JObj [(''id'', JNum id_param), (''name'', JStr (trim (field (ub_name body)))),
                   (''email'', JStr (field (ub_email body))),
                   (''type'', JStr (field (ub_type body))), (''image'', JNull)] \<and>
         users (srv_db s') =
           map (\<lambda>u. if u_id u = id_param
                     then u\<lparr>u_name := trim (field (ub_name body)),
                            u_email := field (ub_email body),
                            u_type := field (ub_type body)\<rparr>
                     else u) (users (srv_db s)) \<and>
         map u_image (users (srv_db s')) = map u_image (users (srv_db s)) \<and>
         sent s' = sent s @
           map (\<lambda>client. (ws_id client,
                  JObj [(''type'', JStr ''USER_UPDATED''), (''data'', b),
                        (''allUsers'', JArr (map json_of_row (users (srv_db s'))))]))
               (filter (\<lambda>client. readyState client = OPEN) (clients s))"
  using assms
  by (auto simp: patch_users_id_def handleValidationErrors_def Let_def
      broadcastUpdate_def getAllUsers_def split: option.splits if_splits)

lemma update_of_Bob:
  "patch_users_id has_at (\<lambda>i. False) 1000 8 (Some 7)
     \<lparr>ub_name = Some ''Robert'', ub_email = Some ''bob@x.org'', ub_type = Some ''user''\<rparr>
     example_server =
   (Reply 200 (JObj [(''id'', JNum 8), (''name'', JStr ''Robert''),
                     (''email'', JStr ''bob@x.org''), (''type'', JStr ''user''),
                     (''image'', JNull)]),
    example_server
      \<lparr>srv_db := enrolled_db
         \<lparr>users :=
            [\<lparr>u_id = 7, u_name = ''Ann'', u_email = ''ann@x.org'', u_type = ''user'',
              u_image = None, u_password = Some ''pw'',
              u_two_factor_secret = Some ''JBSWY3DP'', u_two_factor_enabled = False\<rparr>,
             \<lparr>u_id = 8, u_name = ''Robert'', u_email = ''bob@x.org'', u_type = ''user'',
              u_image = Some ''bob.png'', u_password = Some ''hunter2'',
              u_two_factor_secret = None, u_two_factor_enabled = False\<rparr>],
          logs := [\<lparr>l_user_id = Some 7, l_action = ''update'', l_entity = ''user'',
                    l_entity_id = 8, l_timestamp = 1000\<rparr>]\<rparr>,
       sent := [(1, JObj [(''type'', JStr ''USER_UPDATED''),
                  (''data'', JObj [(''id'', JNum 8), (''name'', JStr ''Robert''),
                                   (''email'', JStr ''bob@x.org''), (''type'', JStr ''user''),
                                   (''image'', JNull)]),
                  (''allUsers'', JArr
                     [JObj [(''id'', JNum 7), (''name'', JStr ''Ann''),
                            (''email'', JStr ''ann@x.org''), (''type'', JStr ''user''),
                            (''image'', JNull), (''two_factor_secret'', JStr ''JBSWY3DP''),
                            (''two_factor_enabled'', JNum 0), (''password'', JStr ''pw'')],
                      JObj [(''id'', JNum 8), (''name'', JStr ''Robert''),
                            (''email'', JStr ''bob@x.org''), (''type'', JStr ''user''),
                            (''image'', JStr ''bob.png''), (''two_factor_secret'', JNull),
                            (''two_factor_enabled'', JNum 0),
                            (''password'', JStr ''hunter2'')]])])]\<rparr>)"
  by (simp add: patch_users_id_def handleValidationErrors_def validateUser_def field_def
      trim_def is_space_def has_at_def example_server_def enrolled_db_def broadcastUpdate_def
      getAllUsers_def OPEN_def Let_def json_of_row_def json_of_opt_def)

theorem update_reports_null_image_witness:
  "fst (patch_users_id has_at (\<lambda>i. False) 1000 8 (Some 7)
       \<lparr>ub_name = Some ''Robert'', ub_email = Some ''bob@x.org'', ub_type = Some ''user''\<rparr>
       example_server) =
     Reply 200 (JObj [(''id'', JNum 8), (''name'', JStr ''Robert''),
                      (''email'', JStr ''bob@x.org''), (''type'', JStr ''user''),
                      (''image'', JNull)]) \<and>
   map u_image (users (srv_db (snd (patch_users_id has_at (\<lambda>i. False) 1000 8 (Some 7)
       \<lparr>ub_name = Some ''Robert'', ub_email = Some ''bob@x.org'', ub_type = Some ''user''\<rparr>
       example_server)))) = [None, Some ''bob.png'']"
proof -
  let ?run = "patch_users_id has_at (\<lambda>i. False) 1000 8 (Some 7)
       \<lparr>ub_name = Some ''Robert'', ub_email = Some ''bob@x.org'', ub_type = Some ''user''\<rparr>
       example_server"
  let ?b = "JObj [(''id'', JNum 8), (''name'', JStr ''Robert''),
                  (''email'', JStr ''bob@x.org''), (''type'', JStr ''user''),
                  (''image'', JNull)]"
  have run: "?run = (Reply 200 ?b, snd ?run)"
    by (simp add: update_of_Bob)
  from update_reports_null_image [OF run]
  have "map u_image (users (srv_db (snd ?run))) = map u_image (users (srv_db example_server))"
    by blast
  also have "\<dots> = [None, Some ''bob.png'']"
    by (simp add: example_server_def enrolled_db_def)
  finally show ?thesis
    using run by (metis fst_conv)
qed

section \<open>Background monitoring: what a run flags\<close>

lemma m_user_id_flag_row [simp]: "m_user_id (flag_row a n now) = a"
  by (simp add: flag_row_def)








section \<open>Background monitoring: a repeated run\<close>







text \<open>
  On a table without any unique key even the run with the same timestamp adds a flag.
\<close>

lemma no_key_rerun_duplicates:
  "map (\<lambda>r. (m_user_id r, m_detected_at r))
     (monitored_users
        (monitoring_tick no_key False (\<lambda>a. False) 1060
           (monitoring_tick no_key False (\<lambda>a. False) 1060 (burst_db 11)))) =
     [(5, 880), (5, 1060), (5, 1060)]"
  by code_simp


end
